theory Spec2Isabelle
  imports Main
begin

section \<open>Data model (models.py)\<close>

text \<open>
  Timestamps are seconds on one clock. \<open>TradeOfferStatus\<close> is the enum of models.py;
  \<open>TradeOfferDB\<close> is the row of table \<open>trade_offers\<close> (its primary key \<open>id\<close> is
  called \<open>offer_id\<close> here, \<open>id\<close> being the identity function of HOL).
\<close>

type_synonym datetime = nat

datatype TradeOfferStatus = pending | accepted | rejected | cancelled | completed

record TradeOfferDB =
  offer_id :: int
  proposer_id :: string
  receiver_id :: string
  offered_item_ids :: "int list"
  requested_item_ids :: "int list"
  status :: TradeOfferStatus
  message :: "string option"
  created_at :: datetime
  updated_at :: datetime
  responded_at :: "datetime option"

text \<open>The request body \<open>TradeOfferCreate\<close> (fields of \<open>TradeOfferBase\<close>).\<close>

record TradeOfferCreate =
  new_proposer_id :: string
  new_receiver_id :: string
  new_offered_item_ids :: "int list"
  new_requested_item_ids :: "int list"
  new_message :: "string option"

text \<open>
  The table behind the SQLAlchemy session: rows by primary key, and the next value of
  the key's sequence.
\<close>

record Session =
  rows :: "int \<rightharpoonup> TradeOfferDB"
  next_id :: int

section \<open>Errors\<close>

text \<open>
  \<open>HTTPException status_code detail\<close>. The detail texts of main.py are kept as
  constructors; a text that formats a list of ids carries the list.
\<close>

datatype detail =
    CannotTradeWithYourself
  | DuplicateOfferedItems
  | DuplicateRequestedItems
  | SameItemOfferedAndRequested
  | ItemsNotFound "int list"
  | ItemsNotActive "int list"
  | ProposerDoesNotOwn "int list"
  | ReceiverDoesNotOwn "int list"
  | CircuitBreakerOpen
  | CatalogUnavailable
  | OfferNotFound int
  | InvalidTransitionForProposer
  | InvalidTransitionForReceiver
  | NotAuthorizedToModify
  | OnlyProposerCanDelete
  | OnlyPendingCanBeDeleted
  | UnhandledException

datatype HTTPException = HTTPException nat detail

definition HTTP_400_BAD_REQUEST :: nat where "HTTP_400_BAD_REQUEST = 400"
definition HTTP_403_FORBIDDEN :: nat where "HTTP_403_FORBIDDEN = 403"
definition HTTP_404_NOT_FOUND :: nat where "HTTP_404_NOT_FOUND = 404"
definition HTTP_500_INTERNAL_SERVER_ERROR :: nat where "HTTP_500_INTERNAL_SERVER_ERROR = 500"
definition HTTP_503_SERVICE_UNAVAILABLE :: nat where "HTTP_503_SERVICE_UNAVAILABLE = 503"

text \<open>The exceptions a remote call can end with.\<close>

datatype exn = CircuitBreakerError | RpcError | RequestError | HTTPStatusError | OtherException

section \<open>Remote dependencies\<close>

datatype cb_state = STATE_CLOSED | STATE_OPEN | STATE_HALF_OPEN

record CircuitBreaker =
  fail_max :: nat
  reset_timeout :: nat
  state :: cb_state
  fail_counter :: nat
  opened_at :: datetime

text \<open>
  One remote service with the breaker that guards it. \<open>behaviour d k req\<close> is what the
  service does on the \<open>k\<close>-th request that reaches it (an exception or a response);
  \<open>calls d\<close> counts the requests that reached it so far.
\<close>

record ('req, 'resp) dependency =
  breaker :: CircuitBreaker
  behaviour :: "nat \<Rightarrow> 'req \<Rightarrow> exn + 'resp"
  calls :: nat

definition invoke :: "'req \<Rightarrow> ('req, 'resp) dependency \<Rightarrow> (exn + 'resp) \<times> ('req, 'resp) dependency" where
  "invoke req d = (behaviour d (calls d) req, d\<lparr>calls := calls d + 1\<rparr>)"

text \<open>
  Modelled from the spec: the body of \<open>CircuitBreaker.call\<close> is in the pybreaker library,
  not in the repository. This follows section 4.1 of the spec: closed invokes the
  operation, a success resets the counter, a failure increments it and opens the
  breaker at the threshold; open fails with the circuit-open failure without invoking,
  unless the reset timeout has been exceeded, when this call is the probe; a probe's
  success closes the breaker and resets the counter, its failure reopens it with a new
  \<open>opened_at\<close>.
\<close>

definition probe_due :: "datetime \<Rightarrow> CircuitBreaker \<Rightarrow> bool" where
  "probe_due now cb = (opened_at cb + reset_timeout cb < now)"

definition CircuitBreaker_call ::
  "datetime \<Rightarrow> ('req, 'resp) dependency
     \<Rightarrow> (('req, 'resp) dependency \<Rightarrow> (exn + 'a) \<times> ('req, 'resp) dependency)
     \<Rightarrow> (exn + 'a) \<times> ('req, 'resp) dependency" where
  "CircuitBreaker_call now d operation =
     (let cb = breaker d in
      case state cb of
        STATE_CLOSED \<Rightarrow>
          (case operation d of
             (Inr v, d') \<Rightarrow> (Inr v, d'\<lparr>breaker := cb\<lparr>fail_counter := 0\<rparr>\<rparr>)
           | (Inl e, d') \<Rightarrow>
               (if fail_max cb \<le> fail_counter cb + 1
                then (Inl e, d'\<lparr>breaker := cb\<lparr>fail_counter := fail_counter cb + 1,
                                                 state := STATE_OPEN, opened_at := now\<rparr>\<rparr>)
                else (Inl e, d'\<lparr>breaker := cb\<lparr>fail_counter := fail_counter cb + 1\<rparr>\<rparr>)))
      | STATE_OPEN \<Rightarrow>
          (if \<not> probe_due now cb then (Inl CircuitBreakerError, d)
           else
             (case operation d of
                (Inr v, d') \<Rightarrow> (Inr v, d'\<lparr>breaker := cb\<lparr>state := STATE_CLOSED, fail_counter := 0\<rparr>\<rparr>)
              | (Inl e, d') \<Rightarrow> (Inl e, d'\<lparr>breaker := cb\<lparr>state := STATE_OPEN, opened_at := now\<rparr>\<rparr>)))
      | STATE_HALF_OPEN \<Rightarrow>
          (case operation d of
             (Inr v, d') \<Rightarrow> (Inr v, d'\<lparr>breaker := cb\<lparr>state := STATE_CLOSED, fail_counter := 0\<rparr>\<rparr>)
           | (Inl e, d') \<Rightarrow> (Inl e, d'\<lparr>breaker := cb\<lparr>state := STATE_OPEN, opened_at := now\<rparr>\<rparr>)))"

text \<open>
  A breaker as the spec describes a new one: threshold 5, reset timeout 60 seconds,
  closed, no failure counted. The concrete run below gives one to each service.
\<close>

definition new_circuit_breaker :: CircuitBreaker where
  "new_circuit_breaker =
     \<lparr>fail_max = 5, reset_timeout = 60, state = STATE_CLOSED, fail_counter = 0, opened_at = 0\<rparr>"

text \<open>
  The three breakers as the modules build them at import. The constructor is the
  pybreaker library's, not in the repository; it is modelled from its signature
  \<open>CircuitBreaker(fail_max=5, reset_timeout=60, exclude=None, listeners=None,
  state_storage=None, name=None)\<close>, with \<open>exclude\<close> and \<open>name\<close> left out: a keyword it
  does not have makes the call raise \<open>TypeError\<close>, here \<open>None\<close>. grpc\_client.py 31-33
  passes \<open>reset_timeout=60\<close>; http\_client.py 16-22 passes \<open>timeout_duration=60\<close> for both
  of its breakers.
\<close>

definition CircuitBreaker_init :: "(string \<times> nat) list \<Rightarrow> CircuitBreaker option" where
  "CircuitBreaker_init kwargs =
     (if list_all (\<lambda>k. k = ''fail_max'' \<or> k = ''reset_timeout'') (map fst kwargs)
      then Some \<lparr>fail_max = (case map_of kwargs ''fail_max'' of Some n \<Rightarrow> n | None \<Rightarrow> 5),
                 reset_timeout = (case map_of kwargs ''reset_timeout'' of Some n \<Rightarrow> n | None \<Rightarrow> 60),
                 state = STATE_CLOSED, fail_counter = 0, opened_at = 0\<rparr>
      else None)"

definition catalog_circuit_breaker :: "CircuitBreaker option" where
  "catalog_circuit_breaker = CircuitBreaker_init [(''fail_max'', 5), (''reset_timeout'', 60)]"

definition notification_circuit_breaker :: "CircuitBreaker option" where
  "notification_circuit_breaker = CircuitBreaker_init [(''fail_max'', 5), (''timeout_duration'', 60)]"

definition chat_circuit_breaker :: "CircuitBreaker option" where
  "chat_circuit_breaker = CircuitBreaker_init [(''fail_max'', 5), (''timeout_duration'', 60)]"

text \<open>
  Modelled from the spec: the retry loop is in the tenacity library, not in the
  repository. This follows section 4.2 of the spec with the arguments the decorators
  pass: \<open>stop_after_attempt(3)\<close>, \<open>wait_exponential(multiplier=1, min=1, max=10)\<close>,
  \<open>reraise=True\<close>. Attempts are numbered from 1; after attempt \<open>n\<close> the loop sleeps
  \<open>wait_exponential n\<close> seconds. Only sleeping moves the clock here. The result is what
  the last attempt returned or raised, the state it left, the number of attempts made
  and the sleeps in order.
\<close>

definition stop_after_attempt :: nat where
  "stop_after_attempt = 3"

definition wait_exponential :: "nat \<Rightarrow> nat" where
  "wait_exponential n = max 1 (min (1 * 2 ^ (n - 1)) 10)"

function retry_loop ::
  "(exn \<Rightarrow> bool) \<Rightarrow> (datetime \<Rightarrow> 's \<Rightarrow> (exn + 'a) \<times> 's) \<Rightarrow> nat \<Rightarrow> datetime \<Rightarrow> 's
     \<Rightarrow> (exn + 'a) \<times> 's \<times> nat \<times> nat list" where
  "retry_loop is_retryable fn attempt_number now s =
     (case fn now s of
        (Inr v, s') \<Rightarrow> (Inr v, s', attempt_number, [])
      | (Inl e, s') \<Rightarrow>
          (if \<not> is_retryable e \<or> stop_after_attempt \<le> attempt_number
           then (Inl e, s', attempt_number, [])
           else
             (case retry_loop is_retryable fn (attempt_number + 1)
                     (now + wait_exponential attempt_number) s' of
                (r, s'', n, waits) \<Rightarrow> (r, s'', n, wait_exponential attempt_number # waits))))"
  by pat_completeness auto
termination
  by (relation "measure (\<lambda>(is_retryable, fn, attempt_number, now, s). stop_after_attempt - attempt_number)")
     auto

declare retry_loop.simps [simp del]

definition with_retry ::
  "(exn \<Rightarrow> bool) \<Rightarrow> (datetime \<Rightarrow> 's \<Rightarrow> (exn + 'a) \<times> 's) \<Rightarrow> datetime \<Rightarrow> 's
     \<Rightarrow> (exn + 'a) \<times> 's \<times> nat \<times> nat list" where
  "with_retry is_retryable fn now s = retry_loop is_retryable fn 1 now s"

section \<open>The catalog client (grpc\_client.py)\<close>

text \<open>
  \<open>ItemValidation\<close> is an entry of the catalog's \<open>ValidateItemsResponse.validations\<close>;
  the client turns each entry into a dictionary with the same four keys.
\<close>

record ItemValidation =
  item_id :: int
  exists :: bool
  is_active :: bool
  owner_id :: string

type_synonym catalog = "(int list, ItemValidation list) dependency"

definition retry_if_rpc_error :: "exn \<Rightarrow> bool" where
  "retry_if_rpc_error e = (e = RpcError)"

text \<open>
  The body of \<open>CatalogClient.validate_items\<close>, one attempt: the stub is called through
  \<open>catalog_circuit_breaker\<close>, the response's entries are copied in order, and both
  \<open>except\<close> clauses raise again what they caught (the metrics are left out).
\<close>

definition validate_items_attempt ::
  "int list \<Rightarrow> datetime \<Rightarrow> catalog \<Rightarrow> (exn + ItemValidation list) \<times> catalog" where
  "validate_items_attempt item_ids now d =
     (case CircuitBreaker_call now d (invoke item_ids) of
        (Inr response, d') \<Rightarrow>
          (Inr (map (\<lambda>validation. \<lparr>item_id = item_id validation, exists = exists validation,
                                     is_active = is_active validation,
                                     owner_id = owner_id validation\<rparr>) response), d')
      | (Inl e, d') \<Rightarrow> (Inl e, d'))"

definition validate_items ::
  "int list \<Rightarrow> datetime \<Rightarrow> catalog \<Rightarrow> (exn + ItemValidation list) \<times> catalog \<times> nat \<times> nat list" where
  "validate_items item_ids now d = with_retry retry_if_rpc_error (validate_items_attempt item_ids) now d"

section \<open>The HTTP client (http\_client.py)\<close>

text \<open>
  An HTTP response: its status code, and its body as JSON when the body parses
  (\<open>response.json()\<close> raises otherwise).
\<close>

record Response =
  status_code :: nat
  json :: "string option"

type_synonym 'p http_service = "('p, Response) dependency"

definition retry_if_http_error :: "exn \<Rightarrow> bool" where
  "retry_if_http_error e = (e = RequestError \<or> e = HTTPStatusError)"

text \<open>
  \<open>_make_request\<close> returns \<open>client.post(url, json=json_data)\<close>: on an \<open>AsyncClient\<close> that
  is a coroutine that has not started, so nothing is sent and nothing is raised while
  the breaker runs it. The request is sent by \<open>await response\<close>, after the breaker's
  call has returned.
\<close>

definition make_request ::
  "'p \<Rightarrow> 'p http_service \<Rightarrow> (exn + ('p http_service \<Rightarrow> (exn + Response) \<times> 'p http_service)) \<times> 'p http_service" where
  "make_request json_data d = (Inr (invoke json_data), d)"

definition http_post_attempt ::
  "'p \<Rightarrow> datetime \<Rightarrow> 'p http_service \<Rightarrow> (exn + Response) \<times> 'p http_service" where
  "http_post_attempt json_data now d =
     (case CircuitBreaker_call now d (make_request json_data) of
        (Inr response, d') \<Rightarrow> response d'
      | (Inl e, d') \<Rightarrow> (Inl e, d'))"

definition http_post_with_retry ::
  "'p \<Rightarrow> datetime \<Rightarrow> 'p http_service \<Rightarrow> (exn + Response) \<times> 'p http_service \<times> nat \<times> nat list" where
  "http_post_with_retry json_data now d = with_retry retry_if_http_error (http_post_attempt json_data) now d"

text \<open>
  Both wrappers catch every exception. They return their value, the service as the
  calls left it, and the clock after the sleeps.
\<close>

definition send_notification_resilient ::
  "'p \<Rightarrow> datetime \<Rightarrow> 'p http_service \<Rightarrow> bool \<times> 'p http_service \<times> datetime" where
  "send_notification_resilient notification_data now d =
     (case http_post_with_retry notification_data now d of
        (Inr response, d', n, waits) \<Rightarrow> (status_code response = 201, d', now + sum_list waits)
      | (Inl e, d', n, waits) \<Rightarrow> (False, d', now + sum_list waits))"

definition create_chat_room_resilient ::
  "'p \<Rightarrow> datetime \<Rightarrow> 'p http_service \<Rightarrow> string option \<times> 'p http_service \<times> datetime" where
  "create_chat_room_resilient chat_data now d =
     (case http_post_with_retry chat_data now d of
        (Inr response, d', n, waits) \<Rightarrow>
          (if status_code response = 201 then json response else None, d', now + sum_list waits)
      | (Inl e, d', n, waits) \<Rightarrow> (None, d', now + sum_list waits))"

section \<open>The service (main.py)\<close>

text \<open>
  The payloads of the two side effects. A notification's title and body are fixed by its
  type and are left out.
\<close>

record notification_data =
  user_id :: string
  related_offer_id :: int
  related_user_id :: string
  notification_type :: string

record chat_room_data =
  trade_offer_id :: int
  user1_id :: string
  user2_id :: string

text \<open>What the service does to the outside, in the order it does it.\<close>

datatype effect =
    Commit TradeOfferDB
  | Delete int
  | NotificationDispatch notification_data
  | ChatRoomProvision chat_room_data

text \<open>
  Everything the handlers read and write: the clock, the table, the three dependencies
  with their module-level breakers, and the log of effects (oldest first).
\<close>

record world =
  clock :: datetime
  db :: Session
  catalog_service :: catalog
  notification_service :: "notification_data http_service"
  chat_service :: "chat_room_data http_service"
  log :: "effect list"

definition create_chat_room :: "TradeOfferDB \<Rightarrow> world \<Rightarrow> world" where
  "create_chat_room offer w =
     (let chat_room_data = \<lparr>trade_offer_id = offer_id offer, user1_id = proposer_id offer,
                              user2_id = receiver_id offer\<rparr>;
          w1 = w\<lparr>log := log w @ [ChatRoomProvision chat_room_data]\<rparr>
      in case create_chat_room_resilient chat_room_data (clock w1) (chat_service w1) of
           (room, d', now') \<Rightarrow> w1\<lparr>chat_service := d', clock := now'\<rparr>)"

definition send_trade_notification :: "TradeOfferDB \<Rightarrow> TradeOfferStatus \<Rightarrow> string \<Rightarrow> world \<Rightarrow> world" where
  "send_trade_notification offer new_status actor_id w =
     (let recipient_id = (if actor_id = receiver_id offer then proposer_id offer else receiver_id offer)
      in case (case new_status of
                 accepted \<Rightarrow> Some ''trade_offer_accepted''
               | rejected \<Rightarrow> Some ''trade_offer_rejected''
               | cancelled \<Rightarrow> Some ''trade_offer_cancelled''
               | completed \<Rightarrow> Some ''trade_completed''
               | pending \<Rightarrow> None) of
           None \<Rightarrow> w
         | Some ty \<Rightarrow>
             (let notification_data = \<lparr>user_id = recipient_id, related_offer_id = offer_id offer,
                                        related_user_id = actor_id, notification_type = ty\<rparr>;
                  w1 = w\<lparr>log := log w @ [NotificationDispatch notification_data]\<rparr>
              in case send_notification_resilient notification_data (clock w1) (notification_service w1) of
                   (sent, d', now') \<Rightarrow> w1\<lparr>notification_service := d', clock := now'\<rparr>))"

text \<open>
  The four ownership checks of \<open>create_trade_offer\<close> on the verdicts the catalog returned,
  in the order of the source: \<open>None\<close> when all pass.
\<close>

definition check_validations ::
  "TradeOfferCreate \<Rightarrow> ItemValidation list \<Rightarrow> HTTPException option" where
  "check_validations offer_data validations =
     (let offered_set = set (new_offered_item_ids offer_data);
          requested_set = set (new_requested_item_ids offer_data);
          invalid_items = filter (\<lambda>v. \<not> exists v) validations;
          inactive_items = filter (\<lambda>v. \<not> is_active v) validations;
          offered_validations = filter (\<lambda>v. item_id v \<in> offered_set) validations;
          wrong_owner = filter (\<lambda>v. owner_id v \<noteq> new_proposer_id offer_data) offered_validations;
          requested_validations = filter (\<lambda>v. item_id v \<in> requested_set) validations;
          wrong_owner' = filter (\<lambda>v. owner_id v \<noteq> new_receiver_id offer_data) requested_validations
      in if invalid_items \<noteq> [] then
           Some (HTTPException HTTP_404_NOT_FOUND (ItemsNotFound (map item_id invalid_items)))
         else if inactive_items \<noteq> [] then
           Some (HTTPException HTTP_400_BAD_REQUEST (ItemsNotActive (map item_id inactive_items)))
         else if wrong_owner \<noteq> [] then
           Some (HTTPException HTTP_403_FORBIDDEN (ProposerDoesNotOwn (map item_id wrong_owner)))
         else if wrong_owner' \<noteq> [] then
           Some (HTTPException HTTP_403_FORBIDDEN (ReceiverDoesNotOwn (map item_id wrong_owner')))
         else None)"

text \<open>
  The columns \<open>id\<close>, \<open>offered_item_ids\<close> and \<open>requested_item_ids\<close> are \<open>Integer\<close> and
  \<open>ARRAY(Integer)\<close> (models.py 26, 35, 38): the store holds 32-bit signed values only.
\<close>

definition int4 :: "int \<Rightarrow> bool" where
  "int4 i = (- (2 ^ 31) \<le> i \<and> i < 2 ^ 31)"

text \<open>
  The insert at the end of \<open>create_trade_offer\<close>: the store gives the row its key and
  both timestamps; \<open>responded_at\<close> has no default and stays null. A value that does not
  fit its column makes \<open>db.commit()\<close> raise; the handler does not catch it, nothing is
  written and the request ends with status 500.
\<close>

definition insert_offer :: "TradeOfferCreate \<Rightarrow> world \<Rightarrow> (HTTPException + TradeOfferDB) \<times> world" where
  "insert_offer offer_data w =
     (if \<not> (int4 (next_id (db w))
            \<and> list_all int4 (new_offered_item_ids offer_data)
            \<and> list_all int4 (new_requested_item_ids offer_data))
      then (Inl (HTTPException HTTP_500_INTERNAL_SERVER_ERROR UnhandledException), w)
      else
       (let db_offer = \<lparr>offer_id = next_id (db w),
                        proposer_id = new_proposer_id offer_data,
                        receiver_id = new_receiver_id offer_data,
                        offered_item_ids = new_offered_item_ids offer_data,
                        requested_item_ids = new_requested_item_ids offer_data,
                        status = pending,
                        message = new_message offer_data,
                        created_at = clock w, updated_at = clock w, responded_at = None\<rparr>
        in (Inr db_offer,
            w\<lparr>db := \<lparr>rows = (rows (db w))(next_id (db w) \<mapsto> db_offer), next_id = next_id (db w) + 1\<rparr>,
              log := log w @ [Commit db_offer]\<rparr>)))"

definition create_trade_offer :: "TradeOfferCreate \<Rightarrow> world \<Rightarrow> (HTTPException + TradeOfferDB) \<times> world" where
  "create_trade_offer offer_data w =
     (if new_proposer_id offer_data = new_receiver_id offer_data then
        (Inl (HTTPException HTTP_400_BAD_REQUEST CannotTradeWithYourself), w)
      else if length (new_offered_item_ids offer_data) \<noteq> card (set (new_offered_item_ids offer_data)) then
        (Inl (HTTPException HTTP_400_BAD_REQUEST DuplicateOfferedItems), w)
      else if length (new_requested_item_ids offer_data) \<noteq> card (set (new_requested_item_ids offer_data)) then
        (Inl (HTTPException HTTP_400_BAD_REQUEST DuplicateRequestedItems), w)
      else if set (new_offered_item_ids offer_data) \<inter> set (new_requested_item_ids offer_data) \<noteq> {} then
        (Inl (HTTPException HTTP_400_BAD_REQUEST SameItemOfferedAndRequested), w)
      else
        (let all_item_ids = new_offered_item_ids offer_data @ new_requested_item_ids offer_data
         in case validate_items all_item_ids (clock w) (catalog_service w) of
              (result, d', n, waits) \<Rightarrow>
                (let w1 = w\<lparr>catalog_service := d', clock := clock w + sum_list waits\<rparr>
                 in case result of
                      Inl CircuitBreakerError \<Rightarrow>
                        (Inl (HTTPException HTTP_503_SERVICE_UNAVAILABLE CircuitBreakerOpen), w1)
                    | Inl RpcError \<Rightarrow>
                        (Inl (HTTPException HTTP_503_SERVICE_UNAVAILABLE CatalogUnavailable), w1)
                    | Inl _ \<Rightarrow>
                        (Inl (HTTPException HTTP_500_INTERNAL_SERVER_ERROR UnhandledException), w1)
                    | Inr validations \<Rightarrow>
                        (case check_validations offer_data validations of
                           Some err \<Rightarrow> (Inl err, w1)
                         | None \<Rightarrow> insert_offer offer_data w1))))"

text \<open>
  \<open>update_trade_offer_status\<close>, lines 436 to 479: who may ask for which transition.
  \<open>None\<close> when the transition is allowed.
\<close>

definition transition_error :: "TradeOfferDB \<Rightarrow> TradeOfferStatus \<Rightarrow> string \<Rightarrow> HTTPException option" where
  "transition_error db_offer new_status user =
     (let current_status = status db_offer
      in if user = proposer_id db_offer then
           (if current_status = pending \<and> new_status = cancelled then None
            else if current_status = accepted \<and> new_status = completed then None
            else Some (HTTPException HTTP_400_BAD_REQUEST InvalidTransitionForProposer))
         else if user = receiver_id db_offer then
           (if current_status = pending \<and> new_status \<in> {accepted, rejected} then None
            else if current_status = accepted \<and> new_status = completed then None
            else Some (HTTPException HTTP_400_BAD_REQUEST InvalidTransitionForReceiver))
         else Some (HTTPException HTTP_403_FORBIDDEN NotAuthorizedToModify))"

text \<open>
  Lines 481 to 491: the new status, \<open>responded_at\<close> for accept and reject, then the
  commit (the store stamps \<open>updated_at\<close>) and the refresh.
\<close>

definition commit_status :: "TradeOfferDB \<Rightarrow> TradeOfferStatus \<Rightarrow> world \<Rightarrow> TradeOfferDB \<times> world" where
  "commit_status db_offer new_status w =
     (let o1 = db_offer\<lparr>status := new_status\<rparr>;
          o2 = (if new_status \<in> {accepted, rejected} then o1\<lparr>responded_at := Some (clock w)\<rparr> else o1);
          o3 = o2\<lparr>updated_at := clock w\<rparr>
      in (o3, w\<lparr>db := (db w)\<lparr>rows := (rows (db w))(offer_id db_offer \<mapsto> o3)\<rparr>,
                log := log w @ [Commit o3]\<rparr>))"

definition update_trade_offer_status ::
  "int \<Rightarrow> TradeOfferStatus \<Rightarrow> string \<Rightarrow> world \<Rightarrow> (HTTPException + TradeOfferDB) \<times> world" where
  "update_trade_offer_status oid new_status user w =
     (case rows (db w) oid of
        None \<Rightarrow> (Inl (HTTPException HTTP_404_NOT_FOUND (OfferNotFound oid)), w)
      | Some db_offer \<Rightarrow>
          (case transition_error db_offer new_status user of
             Some err \<Rightarrow> (Inl err, w)
           | None \<Rightarrow>
               (case commit_status db_offer new_status w of
                  (db_offer', w1) \<Rightarrow>
                    (let w2 = send_trade_notification db_offer' new_status user w1;
                         w3 = (if new_status = accepted then create_chat_room db_offer' w2 else w2)
                     in (Inr db_offer', w3)))))"

definition delete_trade_offer :: "int \<Rightarrow> string \<Rightarrow> world \<Rightarrow> (HTTPException + unit) \<times> world" where
  "delete_trade_offer oid user w =
     (case rows (db w) oid of
        None \<Rightarrow> (Inl (HTTPException HTTP_404_NOT_FOUND (OfferNotFound oid)), w)
      | Some db_offer \<Rightarrow>
          (if user \<noteq> proposer_id db_offer then
             (Inl (HTTPException HTTP_403_FORBIDDEN OnlyProposerCanDelete), w)
           else if status db_offer \<noteq> pending then
             (Inl (HTTPException HTTP_400_BAD_REQUEST OnlyPendingCanBeDeleted), w)
           else
             (Inr (), w\<lparr>db := (db w)\<lparr>rows := (rows (db w))(oid := None)\<rparr>,
                        log := log w @ [Delete oid]\<rparr>)))"

section \<open>The worlds the service can be in\<close>

text \<open>
  A run starts with an empty table (and any clock, any services, any breaker states)
  and goes on by the three handlers that write, and by time passing.
\<close>

inductive reachable :: "world \<Rightarrow> bool" where
  start: "rows (db w) = Map.empty \<Longrightarrow> reachable w"
| created: "reachable w \<Longrightarrow> reachable (snd (create_trade_offer offer_data w))"
| updated: "reachable w \<Longrightarrow> reachable (snd (update_trade_offer_status oid new_status user w))"
| deleted: "reachable w \<Longrightarrow> reachable (snd (delete_trade_offer oid user w))"
| elapsed: "reachable w \<Longrightarrow> reachable (w\<lparr>clock := clock w + dt\<rparr>)"

text \<open>
  What holds of every row of a reachable world: its key is its \<open>offer_id\<close> and was
  drawn from the sequence, its two parties differ, and \<open>responded_at\<close> is null exactly
  while the status is pending or cancelled.
\<close>

definition offer_ok :: "world \<Rightarrow> int \<Rightarrow> TradeOfferDB \<Rightarrow> bool" where
  "offer_ok w i db_offer =
     (offer_id db_offer = i \<and> i < next_id (db w) \<and> proposer_id db_offer \<noteq> receiver_id db_offer
      \<and> ((responded_at db_offer = None) = (status db_offer = pending \<or> status db_offer = cancelled)))"

definition store_ok :: "world \<Rightarrow> bool" where
  "store_ok w = (\<forall>i db_offer. rows (db w) i = Some db_offer \<longrightarrow> offer_ok w i db_offer)"

section \<open>A concrete run\<close>

text \<open>
  A catalog that knows every item as active, items 1 and 2 owned by alice and the others
  by bob; an HTTP service that refuses every connection; alice's offer of items 1 and 2
  for item 3; the world before and after she makes it.
\<close>

definition honest_catalog :: "nat \<Rightarrow> int list \<Rightarrow> exn + ItemValidation list" where
  "honest_catalog k ids =
     Inr (map (\<lambda>i. \<lparr>item_id = i, exists = True, is_active = True,
                     owner_id = (if i = 1 \<or> i = 2 then ''alice'' else ''bob'')\<rparr>) ids)"

definition service_down :: "nat \<Rightarrow> 'p \<Rightarrow> exn + Response" where
  "service_down k payload = Inl RequestError"

definition world0 :: world where
  "world0 =
     \<lparr>clock = 100, db = \<lparr>rows = Map.empty, next_id = 1\<rparr>,
      catalog_service = \<lparr>breaker = new_circuit_breaker, behaviour = honest_catalog, calls = 0\<rparr>,
      notification_service = \<lparr>breaker = new_circuit_breaker, behaviour = service_down, calls = 0\<rparr>,
      chat_service = \<lparr>breaker = new_circuit_breaker, behaviour = service_down, calls = 0\<rparr>,
      log = []\<rparr>"

definition offer_data1 :: TradeOfferCreate where
  "offer_data1 =
     \<lparr>new_proposer_id = ''alice'', new_receiver_id = ''bob'', new_offered_item_ids = [1, 2],
      new_requested_item_ids = [3], new_message = None\<rparr>"

definition offer1 :: TradeOfferDB where
  "offer1 =
     \<lparr>offer_id = 1, proposer_id = ''alice'', receiver_id = ''bob'', offered_item_ids = [1, 2],
      requested_item_ids = [3], status = pending, message = None, created_at = 100,
      updated_at = 100, responded_at = None\<rparr>"

definition world1 :: world where
  "world1 = snd (create_trade_offer offer_data1 world0)"

text \<open>A second request: alice offers two items of bob's and asks for one of her own.\<close>

definition offer_data2 :: TradeOfferCreate where
  "offer_data2 =
     \<lparr>new_proposer_id = ''alice'', new_receiver_id = ''bob'', new_offered_item_ids = [3, 4],
      new_requested_item_ids = [1], new_message = None\<rparr>"

text \<open>The world after bob has accepted alice's offer, both HTTP services down.\<close>

definition world2 :: world where
  "world2 = snd (update_trade_offer_status 1 accepted ''bob'' world1)"





section \<open>Properties\<close>

subsection \<open>The invariant of the table\<close>

lemma db_send_trade_notification [simp]: "db (send_trade_notification offer new_status actor w) = db w"
  by (simp add: send_trade_notification_def Let_def split: TradeOfferStatus.splits prod.splits)

lemma db_create_chat_room [simp]: "db (create_chat_room offer w) = db w"
  by (simp add: create_chat_room_def Let_def split: prod.splits)

lemma db_commit_status:
  "commit_status db_offer new_status w = (o', w') \<Longrightarrow>
     db w' = (db w)\<lparr>rows := (rows (db w))(offer_id db_offer \<mapsto> o')\<rparr>"
  by (auto simp: commit_status_def Let_def)

lemma update_success:
  assumes "update_trade_offer_status oid new_status user w = (Inr o', w')"
  obtains db_offer where "rows (db w) oid = Some db_offer"
    and "transition_error db_offer new_status user = None"
    and "o' = fst (commit_status db_offer new_status w)"
    and "db w' = (db w)\<lparr>rows := (rows (db w))(offer_id db_offer \<mapsto> o')\<rparr>"
  using assms
  by (auto simp: update_trade_offer_status_def Let_def commit_status_def split: option.splits prod.splits if_splits)

lemma update_failure:
  "fst (update_trade_offer_status oid new_status user w) = Inl e \<Longrightarrow>
     snd (update_trade_offer_status oid new_status user w) = w"
  by (auto simp: update_trade_offer_status_def Let_def split: option.splits prod.splits)


lemma create_cases:
  fixes offer_data w
  defines "w1 \<equiv> (case validate_items (new_offered_item_ids offer_data @ new_requested_item_ids offer_data)
                         (clock w) (catalog_service w) of
                    (result, d', n, waits) \<Rightarrow> w\<lparr>catalog_service := d', clock := clock w + sum_list waits\<rparr>)"
  shows "db w1 = db w \<and> log w1 = log w \<and>
     (snd (create_trade_offer offer_data w) = w \<or>
      snd (create_trade_offer offer_data w) = w1 \<or>
       (new_proposer_id offer_data \<noteq> new_receiver_id offer_data \<and>
        create_trade_offer offer_data w = insert_offer offer_data w1))"
  unfolding w1_def
  by (simp add: create_trade_offer_def Let_def split: prod.splits sum.splits exn.splits option.splits)

lemma store_ok_insert:
  assumes "store_ok w1" "new_proposer_id offer_data \<noteq> new_receiver_id offer_data"
  shows "store_ok (snd (insert_offer offer_data w1))"
  using assms
  by (fastforce simp: store_ok_def offer_ok_def insert_offer_def Let_def split: if_splits)

lemma store_ok_create: "store_ok w \<Longrightarrow> store_ok (snd (create_trade_offer offer_data w))"
proof -
  assume ok: "store_ok w"
  define w1 where "w1 = (case validate_items (new_offered_item_ids offer_data @ new_requested_item_ids offer_data)
                         (clock w) (catalog_service w) of
                    (result, d', n, waits) \<Rightarrow> w\<lparr>catalog_service := d', clock := clock w + sum_list waits\<rparr>)"
  from create_cases [of w offer_data, folded w1_def]
  have d: "db w1 = db w"
    and c: "snd (create_trade_offer offer_data w) = w \<or>
      snd (create_trade_offer offer_data w) = w1 \<or>
       (new_proposer_id offer_data \<noteq> new_receiver_id offer_data \<and>
        create_trade_offer offer_data w = insert_offer offer_data w1)" by simp_all
  from ok d have ok1: "store_ok w1" by (simp add: store_ok_def offer_ok_def)
  from c show ?thesis
  proof (elim disjE conjE)
    assume "snd (create_trade_offer offer_data w) = w"
    with ok show ?thesis by simp
  next
    assume "snd (create_trade_offer offer_data w) = w1"
    with ok1 show ?thesis by simp
  next
    assume n: "new_proposer_id offer_data \<noteq> new_receiver_id offer_data"
      and c: "create_trade_offer offer_data w = insert_offer offer_data w1"
    from store_ok_insert [OF ok1 n] c show ?thesis by simp
  qed
qed

lemma transition_responded:
  assumes "transition_error db_offer new_status user = None"
    and "(responded_at db_offer = None) = (status db_offer = pending \<or> status db_offer = cancelled)"
  shows "(responded_at (fst (commit_status db_offer new_status w)) = None)
           = (new_status = pending \<or> new_status = cancelled)"
  using assms
  by (auto simp: transition_error_def commit_status_def Let_def split: if_splits)

lemma commit_fields:
  "fst (commit_status db_offer new_status w) =
     db_offer\<lparr>status := new_status,
       responded_at := (if new_status \<in> {accepted, rejected} then Some (clock w) else responded_at db_offer),
       updated_at := clock w\<rparr>"
  by (simp add: commit_status_def Let_def)

lemma store_ok_update:
  assumes ok: "store_ok w"
  shows "store_ok (snd (update_trade_offer_status oid new_status user w))"
proof (cases "fst (update_trade_offer_status oid new_status user w)")
  case (Inl e)
  from update_failure [OF this] ok show ?thesis by simp
next
  case (Inr o')
  then have "update_trade_offer_status oid new_status user w
               = (Inr o', snd (update_trade_offer_status oid new_status user w))"
    by (metis prod.collapse)
  then show ?thesis
  proof (rule update_success)
    fix db_offer
    assume r: "rows (db w) oid = Some db_offer"
      and t: "transition_error db_offer new_status user = None"
      and o': "o' = fst (commit_status db_offer new_status w)"
      and d: "db (snd (update_trade_offer_status oid new_status user w))
                = (db w)\<lparr>rows := (rows (db w))(offer_id db_offer \<mapsto> o')\<rparr>"
    from ok r have k: "offer_ok w oid db_offer" by (simp add: store_ok_def)
    then have "(responded_at db_offer = None) = (status db_offer = pending \<or> status db_offer = cancelled)"
      by (simp add: offer_ok_def)
    from transition_responded [OF t this, of w] o'
    have "(responded_at o' = None) = (new_status = pending \<or> new_status = cancelled)" by simp
    moreover have "status o' = new_status" "offer_id o' = offer_id db_offer"
      "proposer_id o' = proposer_id db_offer" "receiver_id o' = receiver_id db_offer"
      using o' by (simp_all add: commit_fields)
    ultimately have "offer_ok w oid o'" using k by (simp add: offer_ok_def)
    with ok d k show ?thesis
      by (auto simp: store_ok_def offer_ok_def)
  qed
qed

lemma store_ok_delete: "store_ok w \<Longrightarrow> store_ok (snd (delete_trade_offer oid user w))"
  by (auto simp: store_ok_def offer_ok_def delete_trade_offer_def split: option.splits if_splits)

lemma reachable_store_ok: "reachable w \<Longrightarrow> store_ok w"
proof (induction rule: reachable.induct)
  case (start w)
  then show ?case by (simp add: store_ok_def)
next
  case (created w offer_data)
  then show ?case by (simp add: store_ok_create)
next
  case (updated w oid new_status user)
  then show ?case by (simp add: store_ok_update)
next
  case (deleted w oid user)
  then show ?case by (simp add: store_ok_delete)
next
  case (elapsed w dt)
  then show ?case by (simp add: store_ok_def offer_ok_def)
qed

subsection \<open>The concrete run, evaluated\<close>

lemma validate_world0:
  "validate_items [1, 2, 3] 100 (catalog_service world0) =
     (Inr [\<lparr>item_id = 1, exists = True, is_active = True, owner_id = ''alice''\<rparr>,
           \<lparr>item_id = 2, exists = True, is_active = True, owner_id = ''alice''\<rparr>,
           \<lparr>item_id = 3, exists = True, is_active = True, owner_id = ''bob''\<rparr>],
      (catalog_service world0)\<lparr>calls := 1\<rparr>, 1, [])"
  by (simp add: validate_items_def with_retry_def retry_loop.simps validate_items_attempt_def
      CircuitBreaker_call_def invoke_def world0_def new_circuit_breaker_def honest_catalog_def)

lemma create_world0:
  "create_trade_offer offer_data1 world0 =
     (Inr offer1,
      world0\<lparr>catalog_service := (catalog_service world0)\<lparr>calls := 1\<rparr>,
             db := \<lparr>rows = [1 \<mapsto> offer1], next_id = 2\<rparr>, log := [Commit offer1]\<rparr>)"
  using validate_world0
  by (simp add: create_trade_offer_def offer_data1_def check_validations_def insert_offer_def
      offer1_def Let_def world0_def int4_def)


lemma world1_eq:
  "world1 = world0\<lparr>catalog_service := (catalog_service world0)\<lparr>calls := 1\<rparr>,
             db := \<lparr>rows = [1 \<mapsto> offer1], next_id = 2\<rparr>, log := [Commit offer1]\<rparr>"
  by (simp add: world1_def create_world0)

lemma reachable_world0: "reachable world0"
  by (rule reachable.start) (simp add: world0_def)

lemma reachable_world1: "reachable world1"
  unfolding world1_def by (rule reachable.created [OF reachable_world0])

lemma rows_world1: "rows (db world1) 1 = Some offer1"
  by (simp add: world1_eq)

lemma reachable_row:
  assumes "reachable w" "rows (db w) oid = Some db_offer"
  shows "offer_id db_offer = oid" "proposer_id db_offer \<noteq> receiver_id db_offer"
    "(responded_at db_offer = None) = (status db_offer = pending \<or> status db_offer = cancelled)"
  using reachable_store_ok [OF assms(1)] assms(2) by (auto simp: store_ok_def offer_ok_def)

lemma update_result:
  assumes "rows (db w) oid = Some db_offer"
  shows "fst (update_trade_offer_status oid new_status user w) =
     (case transition_error db_offer new_status user of
        Some err \<Rightarrow> Inl err
      | None \<Rightarrow> Inr (fst (commit_status db_offer new_status w)))"
  using assms
  by (simp add: update_trade_offer_status_def Let_def split: option.splits prod.splits)

subsection \<open>Deleting an offer\<close>

text \<open>
  Claim C9. A delete request on an existing offer succeeds exactly when the actor is the
  proposer and the offer is pending. Any other actor, the receiver included, is refused
  with 403 (Unauthorized) whatever the status, so that check is decided first; the
  proposer of an offer that is not pending is refused with 400 (InvalidState). A refused
  request leaves the world as it was; a successful one removes the row.
\<close>

theorem delete_only_pending_by_proposer:
  assumes "reachable w" and "rows (db w) oid = Some db_offer"
  shows "((fst (delete_trade_offer oid user w) = Inr ())
            = (user = proposer_id db_offer \<and> status db_offer = pending))
       \<and> (user \<noteq> proposer_id db_offer \<longrightarrow>
            delete_trade_offer oid user w = (Inl (HTTPException HTTP_403_FORBIDDEN OnlyProposerCanDelete), w))
       \<and> (user = receiver_id db_offer \<longrightarrow>
            delete_trade_offer oid user w = (Inl (HTTPException HTTP_403_FORBIDDEN OnlyProposerCanDelete), w))
       \<and> (user = proposer_id db_offer \<and> status db_offer \<noteq> pending \<longrightarrow>
            delete_trade_offer oid user w = (Inl (HTTPException HTTP_400_BAD_REQUEST OnlyPendingCanBeDeleted), w))
       \<and> (user = proposer_id db_offer \<and> status db_offer = pending \<longrightarrow>
            rows (db (snd (delete_trade_offer oid user w))) oid = None)"
  using assms(2) reachable_row(2) [OF assms]
  by (auto simp: delete_trade_offer_def)

theorem delete_only_pending_by_proposer_witness:
  "reachable world1 \<and> rows (db world1) 1 = Some offer1
   \<and> fst (delete_trade_offer 1 ''alice'' world1) = Inr ()
   \<and> delete_trade_offer 1 ''bob'' world1 = (Inl (HTTPException HTTP_403_FORBIDDEN OnlyProposerCanDelete), world1)"
  using delete_only_pending_by_proposer [OF reachable_world1 rows_world1, of "''alice''"]
    delete_only_pending_by_proposer [OF reachable_world1 rows_world1, of "''bob''"]
    reachable_world1 rows_world1
  by (simp add: offer1_def)

lemma update_rows:
  assumes "reachable w"
  shows "rows (db (snd (update_trade_offer_status oid new_status user w))) =
     (case fst (update_trade_offer_status oid new_status user w) of
        Inl err \<Rightarrow> rows (db w)
      | Inr db_offer' \<Rightarrow> (rows (db w))(oid \<mapsto> db_offer'))"
proof (cases "fst (update_trade_offer_status oid new_status user w)")
  case (Inl e)
  from update_failure [OF this] Inl show ?thesis by simp
next
  case (Inr o')
  then have "update_trade_offer_status oid new_status user w
               = (Inr o', snd (update_trade_offer_status oid new_status user w))"
    by (metis prod.collapse)
  then show ?thesis
  proof (rule update_success)
    fix db_offer
    assume r: "rows (db w) oid = Some db_offer"
      and d: "db (snd (update_trade_offer_status oid new_status user w))
                = (db w)\<lparr>rows := (rows (db w))(offer_id db_offer \<mapsto> o')\<rparr>"
    from reachable_row(1) [OF assms r] d Inr show ?thesis by simp
  qed
qed

lemma update_next_id:
  "next_id (db (snd (update_trade_offer_status oid new_status user w))) = next_id (db w)"
  by (simp add: update_trade_offer_status_def commit_status_def Let_def split: option.splits prod.splits)

lemma clock_world1: "clock world1 = 100"
  by (simp add: world1_eq world0_def)

lemma update_world1_accept:
  "update_trade_offer_status 1 accepted ''bob'' world1 =
     (Inr (offer1\<lparr>status := accepted, responded_at := Some 100, updated_at := 100\<rparr>),
      snd (update_trade_offer_status 1 accepted ''bob'' world1))"
proof -
  have "fst (update_trade_offer_status 1 accepted ''bob'' world1) =
          Inr (offer1\<lparr>status := accepted, responded_at := Some 100, updated_at := 100\<rparr>)"
    using clock_world1
    by (simp add: update_result [OF rows_world1] transition_error_def commit_fields offer1_def)
  then show ?thesis by (metis prod.collapse)
qed

subsection \<open>The transition table\<close>

text \<open>
  Claim C1. For every stored offer and every status-update request: the proposer
  succeeds exactly for pending to cancelled and accepted to completed; the receiver
  succeeds exactly for pending to accepted or rejected and accepted to completed; a user
  who is neither party is refused with 403 (Unauthorized); every other request of a
  party is refused with 400 (InvalidTransition); so an offer that is rejected, cancelled
  or completed accepts no transition. A request that succeeds returns the offer in the
  requested status and that offer is the row now stored under the key, all other rows as
  before; a request that is refused leaves the whole world as it was.
\<close>

theorem transition_table:
  assumes "reachable w" and "rows (db w) oid = Some db_offer"
  shows "(user = proposer_id db_offer \<longrightarrow>
            ((\<exists>db_offer'. fst (update_trade_offer_status oid new_status user w) = Inr db_offer')
               = (status db_offer = pending \<and> new_status = cancelled
                  \<or> status db_offer = accepted \<and> new_status = completed)))
       \<and> (user = receiver_id db_offer \<longrightarrow>
            ((\<exists>db_offer'. fst (update_trade_offer_status oid new_status user w) = Inr db_offer')
               = (status db_offer = pending \<and> (new_status = accepted \<or> new_status = rejected)
                  \<or> status db_offer = accepted \<and> new_status = completed)))
       \<and> (user \<noteq> proposer_id db_offer \<and> user \<noteq> receiver_id db_offer \<longrightarrow>
            fst (update_trade_offer_status oid new_status user w)
              = Inl (HTTPException HTTP_403_FORBIDDEN NotAuthorizedToModify))
       \<and> ((user = proposer_id db_offer \<or> user = receiver_id db_offer)
            \<and> (\<forall>db_offer'. fst (update_trade_offer_status oid new_status user w) \<noteq> Inr db_offer') \<longrightarrow>
            fst (update_trade_offer_status oid new_status user w)
              = Inl (HTTPException HTTP_400_BAD_REQUEST
                      (if user = proposer_id db_offer then InvalidTransitionForProposer
                       else InvalidTransitionForReceiver)))
       \<and> (status db_offer = rejected \<or> status db_offer = cancelled \<or> status db_offer = completed \<longrightarrow>
            (\<forall>db_offer'. fst (update_trade_offer_status oid new_status user w) \<noteq> Inr db_offer'))
       \<and> (\<forall>db_offer'. fst (update_trade_offer_status oid new_status user w) = Inr db_offer' \<longrightarrow>
            status db_offer' = new_status
            \<and> rows (db (snd (update_trade_offer_status oid new_status user w)))
                = (rows (db w))(oid \<mapsto> db_offer'))
       \<and> (\<forall>err. fst (update_trade_offer_status oid new_status user w) = Inl err \<longrightarrow>
            snd (update_trade_offer_status oid new_status user w) = w)"
proof -
  have t: "(user = proposer_id db_offer \<longrightarrow>
            ((\<exists>db_offer'. fst (update_trade_offer_status oid new_status user w) = Inr db_offer')
               = (status db_offer = pending \<and> new_status = cancelled
                  \<or> status db_offer = accepted \<and> new_status = completed)))
       \<and> (user = receiver_id db_offer \<longrightarrow>
            ((\<exists>db_offer'. fst (update_trade_offer_status oid new_status user w) = Inr db_offer')
               = (status db_offer = pending \<and> (new_status = accepted \<or> new_status = rejected)
                  \<or> status db_offer = accepted \<and> new_status = completed)))
       \<and> (user \<noteq> proposer_id db_offer \<and> user \<noteq> receiver_id db_offer \<longrightarrow>
            fst (update_trade_offer_status oid new_status user w)
              = Inl (HTTPException HTTP_403_FORBIDDEN NotAuthorizedToModify))
       \<and> ((user = proposer_id db_offer \<or> user = receiver_id db_offer)
            \<and> (\<forall>db_offer'. fst (update_trade_offer_status oid new_status user w) \<noteq> Inr db_offer') \<longrightarrow>
            fst (update_trade_offer_status oid new_status user w)
              = Inl (HTTPException HTTP_400_BAD_REQUEST
                      (if user = proposer_id db_offer then InvalidTransitionForProposer
                       else InvalidTransitionForReceiver)))
       \<and> (status db_offer = rejected \<or> status db_offer = cancelled \<or> status db_offer = completed \<longrightarrow>
            (\<forall>db_offer'. fst (update_trade_offer_status oid new_status user w) \<noteq> Inr db_offer'))"
    using reachable_row(2) [OF assms]
    by (auto simp: update_result [OF assms(2)] transition_error_def Let_def)
  have s: "status db_offer' = new_status
            \<and> rows (db (snd (update_trade_offer_status oid new_status user w)))
                = (rows (db w))(oid \<mapsto> db_offer')"
    if f: "fst (update_trade_offer_status oid new_status user w) = Inr db_offer'" for db_offer'
  proof -
    from f update_result [OF assms(2), of new_status user]
    have "db_offer' = fst (commit_status db_offer new_status w)"
      by (simp split: option.splits)
    then have e: "db_offer' = db_offer\<lparr>status := new_status,
         responded_at := (if new_status \<in> {accepted, rejected} then Some (clock w) else responded_at db_offer),
         updated_at := clock w\<rparr>" by (simp add: commit_fields)
    have r: "rows (db (snd (update_trade_offer_status oid new_status user w)))
               = (rows (db w))(oid \<mapsto> db_offer')"
      using update_rows [OF assms(1), of oid new_status user] f by simp
    from e r show ?thesis by simp
  qed
  have u: "\<forall>err. fst (update_trade_offer_status oid new_status user w) = Inl err \<longrightarrow>
            snd (update_trade_offer_status oid new_status user w) = w"
    using update_failure by blast
  from s have s': "\<forall>db_offer'. fst (update_trade_offer_status oid new_status user w) = Inr db_offer' \<longrightarrow>
            status db_offer' = new_status
            \<and> rows (db (snd (update_trade_offer_status oid new_status user w)))
                = (rows (db w))(oid \<mapsto> db_offer')" by blast
  from t s' u show ?thesis by blast
qed


theorem transition_table_witness:
  "reachable world1 \<and> rows (db world1) 1 = Some offer1
   \<and> fst (update_trade_offer_status 1 accepted ''bob'' world1)
       = Inr (offer1\<lparr>status := accepted, responded_at := Some 100, updated_at := 100\<rparr>)
   \<and> rows (db (snd (update_trade_offer_status 1 accepted ''bob'' world1))) 1
       = Some (offer1\<lparr>status := accepted, responded_at := Some 100, updated_at := 100\<rparr>)
   \<and> (\<exists>db_offer'. fst (update_trade_offer_status 1 cancelled ''alice'' world1) = Inr db_offer')
   \<and> update_trade_offer_status 1 accepted ''alice'' world1
       = (Inl (HTTPException HTTP_400_BAD_REQUEST InvalidTransitionForProposer), world1)
   \<and> update_trade_offer_status 1 accepted ''carol'' world1
       = (Inl (HTTPException HTTP_403_FORBIDDEN NotAuthorizedToModify), world1)"
proof -
  note t = transition_table [OF reachable_world1 rows_world1]
  have b: "fst (update_trade_offer_status 1 accepted ''bob'' world1)
       = Inr (offer1\<lparr>status := accepted, responded_at := Some 100, updated_at := 100\<rparr>)"
    by (metis update_world1_accept fst_conv)
  with t [of "''bob''" accepted]
  have "rows (db (snd (update_trade_offer_status 1 accepted ''bob'' world1)))
       = (rows (db world1))(1 \<mapsto> offer1\<lparr>status := accepted, responded_at := Some 100, updated_at := 100\<rparr>)"
    by blast
  then have r: "rows (db (snd (update_trade_offer_status 1 accepted ''bob'' world1))) 1
       = Some (offer1\<lparr>status := accepted, responded_at := Some 100, updated_at := 100\<rparr>)"
    by simp
  have c: "\<exists>db_offer'. fst (update_trade_offer_status 1 cancelled ''alice'' world1) = Inr db_offer'"
    using t [of "''alice''" cancelled] by (simp add: offer1_def)
  have "fst (update_trade_offer_status 1 accepted ''alice'' world1)
       = Inl (HTTPException HTTP_400_BAD_REQUEST InvalidTransitionForProposer)"
    using t [of "''alice''" accepted] by (simp add: offer1_def)
  moreover from this t [of "''alice''" accepted]
  have "snd (update_trade_offer_status 1 accepted ''alice'' world1) = world1" by blast
  ultimately have a: "update_trade_offer_status 1 accepted ''alice'' world1
       = (Inl (HTTPException HTTP_400_BAD_REQUEST InvalidTransitionForProposer), world1)"
    by (simp add: prod_eq_iff)
  have "fst (update_trade_offer_status 1 accepted ''carol'' world1)
       = Inl (HTTPException HTTP_403_FORBIDDEN NotAuthorizedToModify)"
    using t [of "''carol''" accepted] by (simp add: offer1_def)
  moreover from this t [of "''carol''" accepted]
  have "snd (update_trade_offer_status 1 accepted ''carol'' world1) = world1" by blast
  ultimately have k: "update_trade_offer_status 1 accepted ''carol'' world1
       = (Inl (HTTPException HTTP_403_FORBIDDEN NotAuthorizedToModify), world1)"
    by (simp add: prod_eq_iff)
  from reachable_world1 rows_world1 b r c a k show ?thesis by (intro conjI)
qed

subsection \<open>What a status update leaves alone\<close>

text \<open>
  Claim C10. A successful status update changes nothing of the offer but its status,
  \<open>responded_at\<close> and the store-stamped \<open>updated_at\<close>: the key, both parties, both item
  lists, the message and \<open>created_at\<close> are as before, the returned offer is the row now
  stored under the key, and no other row and not the key sequence has changed.
\<close>

theorem status_update_frame:
  assumes "reachable w" and "rows (db w) oid = Some db_offer"
    and "update_trade_offer_status oid new_status user w = (Inr db_offer', w')"
  shows "offer_id db_offer' = offer_id db_offer
       \<and> proposer_id db_offer' = proposer_id db_offer
       \<and> receiver_id db_offer' = receiver_id db_offer
       \<and> offered_item_ids db_offer' = offered_item_ids db_offer
       \<and> requested_item_ids db_offer' = requested_item_ids db_offer
       \<and> message db_offer' = message db_offer
       \<and> created_at db_offer' = created_at db_offer
       \<and> db_offer' = db_offer\<lparr>status := new_status, responded_at := responded_at db_offer',
                               updated_at := updated_at db_offer'\<rparr>
       \<and> rows (db w') = (rows (db w))(oid \<mapsto> db_offer')
       \<and> next_id (db w') = next_id (db w)"
proof -
  from assms(3) have f: "fst (update_trade_offer_status oid new_status user w) = Inr db_offer'"
    and s: "w' = snd (update_trade_offer_status oid new_status user w)" by simp_all
  from f update_result [OF assms(2), of new_status user]
  have "db_offer' = fst (commit_status db_offer new_status w)"
    by (simp split: option.splits)
  then have e: "db_offer' = db_offer\<lparr>status := new_status,
       responded_at := (if new_status \<in> {accepted, rejected} then Some (clock w) else responded_at db_offer),
       updated_at := clock w\<rparr>" by (simp add: commit_fields)
  have r: "rows (db w') = (rows (db w))(oid \<mapsto> db_offer')"
    using update_rows [OF assms(1), of oid new_status user] f s by simp
  have n: "next_id (db w') = next_id (db w)" using s by (simp add: update_next_id)
  from e r n show ?thesis by simp
qed

theorem status_update_frame_witness:
  "reachable world1 \<and> rows (db world1) 1 = Some offer1
   \<and> update_trade_offer_status 1 accepted ''bob'' world1 =
       (Inr (offer1\<lparr>status := accepted, responded_at := Some 100, updated_at := 100\<rparr>),
        snd (update_trade_offer_status 1 accepted ''bob'' world1))
   \<and> proposer_id (offer1\<lparr>status := accepted, responded_at := Some 100, updated_at := 100\<rparr>) = ''alice''
   \<and> rows (db (snd (update_trade_offer_status 1 accepted ''bob'' world1))) =
       (rows (db world1))(1 \<mapsto> offer1\<lparr>status := accepted, responded_at := Some 100, updated_at := 100\<rparr>)"
  using status_update_frame [OF reachable_world1 rows_world1 update_world1_accept]
    reachable_world1 rows_world1 update_world1_accept
  by (simp add: offer1_def)

lemma len_set_distinct: "(length xs \<noteq> card (set xs)) = (\<not> distinct xs)"
  by (metis card_distinct distinct_card)

lemma create_rejected:
  assumes "new_proposer_id offer_data = new_receiver_id offer_data
         \<or> \<not> distinct (new_offered_item_ids offer_data)
         \<or> \<not> distinct (new_requested_item_ids offer_data)
         \<or> set (new_offered_item_ids offer_data) \<inter> set (new_requested_item_ids offer_data) \<noteq> {}"
  shows "create_trade_offer offer_data w =
           (Inl (HTTPException HTTP_400_BAD_REQUEST
                  (if new_proposer_id offer_data = new_receiver_id offer_data then CannotTradeWithYourself
                   else if \<not> distinct (new_offered_item_ids offer_data) then DuplicateOfferedItems
                   else if \<not> distinct (new_requested_item_ids offer_data) then DuplicateRequestedItems
                   else SameItemOfferedAndRequested)), w)"
proof (cases "new_proposer_id offer_data = new_receiver_id offer_data")
  case True
  then show ?thesis by (simp add: create_trade_offer_def)
next
  case p: False
  show ?thesis
  proof (cases "distinct (new_offered_item_ids offer_data)")
    case False
    with p show ?thesis by (simp add: create_trade_offer_def len_set_distinct)
  next
    case o: True
    show ?thesis
    proof (cases "distinct (new_requested_item_ids offer_data)")
      case False
      with p o show ?thesis by (simp add: create_trade_offer_def len_set_distinct)
    next
      case True
      with p o assms
      have "set (new_offered_item_ids offer_data) \<inter> set (new_requested_item_ids offer_data) \<noteq> {}"
        by simp
      with p o True show ?thesis by (simp add: create_trade_offer_def len_set_distinct)
    qed
  qed
qed

lemma create_after_validation:
  assumes "new_proposer_id offer_data \<noteq> new_receiver_id offer_data"
    and "distinct (new_offered_item_ids offer_data)"
    and "distinct (new_requested_item_ids offer_data)"
    and "set (new_offered_item_ids offer_data) \<inter> set (new_requested_item_ids offer_data) = {}"
    and "validate_items (new_offered_item_ids offer_data @ new_requested_item_ids offer_data)
           (clock w) (catalog_service w) = (Inr validations, d', n, waits)"
  shows "create_trade_offer offer_data w =
     (case check_validations offer_data validations of
        Some err \<Rightarrow> (Inl err, w\<lparr>catalog_service := d', clock := clock w + sum_list waits\<rparr>)
      | None \<Rightarrow> insert_offer offer_data (w\<lparr>catalog_service := d', clock := clock w + sum_list waits\<rparr>))"
proof -
  have "validate_items (new_offered_item_ids offer_data @ new_requested_item_ids offer_data)
           (clock w) (catalog_service w) = (Inr validations, d', n, waits)" by (rule assms(5))
  then show ?thesis
    using assms(1-4) by (simp add: create_trade_offer_def len_set_distinct Let_def)
qed




subsection \<open>Creation: the checks on the request itself\<close>

text \<open>
  Claim C5. A creation request whose proposer is its receiver, whose offered list or
  requested list holds an id twice, or whose two lists share an id, is refused with
  status 400; the world is returned as it was, so the catalog was not called (its call
  counter and its breaker are unchanged) and no row was written.
\<close>

theorem invalid_request_rejected_before_catalog:
  assumes "new_proposer_id offer_data = new_receiver_id offer_data
         \<or> \<not> distinct (new_offered_item_ids offer_data)
         \<or> \<not> distinct (new_requested_item_ids offer_data)
         \<or> set (new_offered_item_ids offer_data) \<inter> set (new_requested_item_ids offer_data) \<noteq> {}"
  shows "fst (create_trade_offer offer_data w) =
           Inl (HTTPException HTTP_400_BAD_REQUEST
                  (if new_proposer_id offer_data = new_receiver_id offer_data then CannotTradeWithYourself
                   else if \<not> distinct (new_offered_item_ids offer_data) then DuplicateOfferedItems
                   else if \<not> distinct (new_requested_item_ids offer_data) then DuplicateRequestedItems
                   else SameItemOfferedAndRequested))
     \<and> snd (create_trade_offer offer_data w) = w
     \<and> calls (catalog_service (snd (create_trade_offer offer_data w))) = calls (catalog_service w)
     \<and> breaker (catalog_service (snd (create_trade_offer offer_data w))) = breaker (catalog_service w)"
  by (simp add: create_rejected [OF assms])

theorem invalid_request_rejected_before_catalog_witness:
  "fst (create_trade_offer (offer_data1\<lparr>new_offered_item_ids := [1, 1]\<rparr>) world0) =
     Inl (HTTPException HTTP_400_BAD_REQUEST DuplicateOfferedItems)
   \<and> calls (catalog_service (snd (create_trade_offer (offer_data1\<lparr>new_offered_item_ids := [1, 1]\<rparr>) world0))) = 0"
  using invalid_request_rejected_before_catalog [of "offer_data1\<lparr>new_offered_item_ids := [1, 1]\<rparr>" world0]
  by (simp add: offer_data1_def world0_def)

lemma check_validations_order:
  "check_validations offer_data validations =
     (if \<exists>v \<in> set validations. \<not> exists v then
        Some (HTTPException HTTP_404_NOT_FOUND
              (ItemsNotFound (map item_id (filter (\<lambda>v. \<not> exists v) validations))))
      else if \<exists>v \<in> set validations. \<not> is_active v then
        Some (HTTPException HTTP_400_BAD_REQUEST
              (ItemsNotActive (map item_id (filter (\<lambda>v. \<not> is_active v) validations))))
      else if \<exists>v \<in> set validations. item_id v \<in> set (new_offered_item_ids offer_data)
                                   \<and> owner_id v \<noteq> new_proposer_id offer_data then
        Some (HTTPException HTTP_403_FORBIDDEN
              (ProposerDoesNotOwn (map item_id (filter (\<lambda>v. item_id v \<in> set (new_offered_item_ids offer_data)
                                   \<and> owner_id v \<noteq> new_proposer_id offer_data) validations))))
      else if \<exists>v \<in> set validations. item_id v \<in> set (new_requested_item_ids offer_data)
                                   \<and> owner_id v \<noteq> new_receiver_id offer_data then
        Some (HTTPException HTTP_403_FORBIDDEN
              (ReceiverDoesNotOwn (map item_id (filter (\<lambda>v. item_id v \<in> set (new_requested_item_ids offer_data)
                                   \<and> owner_id v \<noteq> new_receiver_id offer_data) validations))))
      else None)"
proof -
  have e: "\<And>P. (filter P validations \<noteq> []) = (\<exists>v \<in> set validations. P v)"
    by (simp add: filter_empty_conv)
  have f: "\<And>P Q. filter Q (filter P validations) = filter (\<lambda>v. P v \<and> Q v) validations"
    by simp
  show ?thesis
    unfolding check_validations_def Let_def e f
    by (rule refl)
qed


lemma validate_world0_2:
  "validate_items [3, 4, 1] 100 (catalog_service world0) =
     (Inr [\<lparr>item_id = 3, exists = True, is_active = True, owner_id = ''bob''\<rparr>,
           \<lparr>item_id = 4, exists = True, is_active = True, owner_id = ''bob''\<rparr>,
           \<lparr>item_id = 1, exists = True, is_active = True, owner_id = ''alice''\<rparr>],
      (catalog_service world0)\<lparr>calls := 1\<rparr>, 1, [])"
  by (simp add: validate_items_def with_retry_def retry_loop.simps validate_items_attempt_def
      CircuitBreaker_call_def invoke_def world0_def new_circuit_breaker_def honest_catalog_def)

subsection \<open>Creation: the checks on the catalog's verdicts\<close>

text \<open>
  Claim C4. When the request passes its own checks and the catalog call returns the
  verdicts \<open>validations\<close>, the outcome is decided by four checks in this order: some item
  does not exist (404), some item is not active (400), some offered item is not owned by
  the proposer (403), some requested item is not owned by the receiver (403). The error
  is that of the first check with a violating verdict and carries the ids of all verdicts
  violating that check, in the order of the verdicts; later checks are not reported. Only
  when no check is violated does the handler go on to the insert.
\<close>

theorem ownership_checks_in_order:
  assumes "new_proposer_id offer_data \<noteq> new_receiver_id offer_data"
    and "distinct (new_offered_item_ids offer_data)"
    and "distinct (new_requested_item_ids offer_data)"
    and "set (new_offered_item_ids offer_data) \<inter> set (new_requested_item_ids offer_data) = {}"
    and "validate_items (new_offered_item_ids offer_data @ new_requested_item_ids offer_data)
           (clock w) (catalog_service w) = (Inr validations, d', n, waits)"
  shows "fst (create_trade_offer offer_data w) =
     (if \<exists>v \<in> set validations. \<not> exists v then
        Inl (HTTPException HTTP_404_NOT_FOUND
              (ItemsNotFound (map item_id (filter (\<lambda>v. \<not> exists v) validations))))
      else if \<exists>v \<in> set validations. \<not> is_active v then
        Inl (HTTPException HTTP_400_BAD_REQUEST
              (ItemsNotActive (map item_id (filter (\<lambda>v. \<not> is_active v) validations))))
      else if \<exists>v \<in> set validations. item_id v \<in> set (new_offered_item_ids offer_data)
                                   \<and> owner_id v \<noteq> new_proposer_id offer_data then
        Inl (HTTPException HTTP_403_FORBIDDEN
              (ProposerDoesNotOwn (map item_id (filter (\<lambda>v. item_id v \<in> set (new_offered_item_ids offer_data)
                                   \<and> owner_id v \<noteq> new_proposer_id offer_data) validations))))
      else if \<exists>v \<in> set validations. item_id v \<in> set (new_requested_item_ids offer_data)
                                   \<and> owner_id v \<noteq> new_receiver_id offer_data then
        Inl (HTTPException HTTP_403_FORBIDDEN
              (ReceiverDoesNotOwn (map item_id (filter (\<lambda>v. item_id v \<in> set (new_requested_item_ids offer_data)
                                   \<and> owner_id v \<noteq> new_receiver_id offer_data) validations))))
      else fst (insert_offer offer_data (w\<lparr>catalog_service := d', clock := clock w + sum_list waits\<rparr>)))"
proof -
  have c: "\<And>c x y a b. (case (if c then x else y) of None \<Rightarrow> a | Some e \<Rightarrow> b e) =
             (if c then (case x of None \<Rightarrow> a | Some e \<Rightarrow> b e)
              else (case y of None \<Rightarrow> (a :: HTTPException + TradeOfferDB) | Some (e :: HTTPException) \<Rightarrow> b e))"
    by simp
  have "fst (create_trade_offer offer_data w) =
     (case check_validations offer_data validations of
        None \<Rightarrow> fst (insert_offer offer_data (w\<lparr>catalog_service := d', clock := clock w + sum_list waits\<rparr>))
      | Some err \<Rightarrow> Inl err)"
    by (simp add: create_after_validation [OF assms] split: option.splits)
  then show ?thesis
    unfolding check_validations_order c option.case by (rule back_subst) (rule refl)
qed

theorem ownership_checks_in_order_witness:
  "validate_items (new_offered_item_ids offer_data2 @ new_requested_item_ids offer_data2)
       (clock world0) (catalog_service world0) =
     (Inr [\<lparr>item_id = 3, exists = True, is_active = True, owner_id = ''bob''\<rparr>,
           \<lparr>item_id = 4, exists = True, is_active = True, owner_id = ''bob''\<rparr>,
           \<lparr>item_id = 1, exists = True, is_active = True, owner_id = ''alice''\<rparr>],
      (catalog_service world0)\<lparr>calls := 1\<rparr>, 1, [])
   \<and> fst (create_trade_offer offer_data2 world0) =
       Inl (HTTPException HTTP_403_FORBIDDEN (ProposerDoesNotOwn [3, 4]))"
  using ownership_checks_in_order [of offer_data2 world0
      "[\<lparr>item_id = 3, exists = True, is_active = True, owner_id = ''bob''\<rparr>,
        \<lparr>item_id = 4, exists = True, is_active = True, owner_id = ''bob''\<rparr>,
        \<lparr>item_id = 1, exists = True, is_active = True, owner_id = ''alice''\<rparr>]"
      "(catalog_service world0)\<lparr>calls := 1\<rparr>" 1 "[]"] validate_world0_2
  by (simp add: offer_data2_def) (simp add: world0_def)

lemma log_create_chat_room:
  "log (create_chat_room offer w) =
     log w @ [ChatRoomProvision \<lparr>trade_offer_id = offer_id offer, user1_id = proposer_id offer,
                                  user2_id = receiver_id offer\<rparr>]"
  by (simp add: create_chat_room_def Let_def split: prod.splits)

lemma log_send_trade_notification:
  "new_status \<noteq> pending \<Longrightarrow>
   \<exists>ty. log (send_trade_notification offer new_status actor w) =
     log w @ [NotificationDispatch
               \<lparr>user_id = (if actor = receiver_id offer then proposer_id offer else receiver_id offer),
                related_offer_id = offer_id offer, related_user_id = actor, notification_type = ty\<rparr>]"
  by (cases new_status) (simp_all add: send_trade_notification_def Let_def split: prod.splits)

lemma log_commit_status:
  "log (snd (commit_status db_offer new_status w)) = log w @ [Commit (fst (commit_status db_offer new_status w))]"
  by (simp add: commit_status_def Let_def)

lemma transition_not_pending:
  "transition_error db_offer new_status user = None \<Longrightarrow> new_status \<noteq> pending"
  by (auto simp: transition_error_def Let_def split: if_splits)

lemma update_world:
  assumes "rows (db w) oid = Some db_offer" and "transition_error db_offer new_status user = None"
  shows "snd (update_trade_offer_status oid new_status user w) =
     (let w2 = send_trade_notification (fst (commit_status db_offer new_status w)) new_status user
                 (snd (commit_status db_offer new_status w))
      in if new_status = accepted then create_chat_room (fst (commit_status db_offer new_status w)) w2 else w2)"
  using assms
  by (simp add: update_trade_offer_status_def Let_def split: prod.splits)

subsection \<open>The commit and the side effects\<close>

text \<open>
  Claim C3. For every allowed status transition, whatever the notification service and
  the chat service do and whatever state their breakers are in: the handler returns the
  updated offer, the table in the final world is exactly the table the commit left, with
  that offer under its key, and the log of effects is extended by the commit first, then
  the notification dispatch, then (on accept only) the chat-room provisioning, with no
  write to the table after the commit. In the witness both services refuse every
  request: each is tried three times, and the answer is still the accepted offer.
\<close>

theorem commit_before_side_effects:
  assumes "reachable w" and "rows (db w) oid = Some db_offer"
    and "transition_error db_offer new_status user = None"
  shows "fst (update_trade_offer_status oid new_status user w)
           = Inr (fst (commit_status db_offer new_status w))
       \<and> db (snd (update_trade_offer_status oid new_status user w))
           = db (snd (commit_status db_offer new_status w))
       \<and> rows (db (snd (update_trade_offer_status oid new_status user w))) oid
           = Some (fst (commit_status db_offer new_status w))
       \<and> status (fst (commit_status db_offer new_status w)) = new_status
       \<and> (\<exists>ty. log (snd (update_trade_offer_status oid new_status user w)) =
             log w @ [Commit (fst (commit_status db_offer new_status w)),
                      NotificationDispatch
                        \<lparr>user_id = (if user = receiver_id db_offer then proposer_id db_offer
                                    else receiver_id db_offer),
                         related_offer_id = oid, related_user_id = user, notification_type = ty\<rparr>]
                   @ (if new_status = accepted
                      then [ChatRoomProvision \<lparr>trade_offer_id = oid, user1_id = proposer_id db_offer,
                                               user2_id = receiver_id db_offer\<rparr>]
                      else []))"
proof -
  let ?o = "fst (commit_status db_offer new_status w)"
  let ?w1 = "snd (commit_status db_offer new_status w)"
  let ?w' = "snd (update_trade_offer_status oid new_status user w)"
  have i: "offer_id db_offer = oid" by (rule reachable_row(1) [OF assms(1,2)])
  have f: "fst (update_trade_offer_status oid new_status user w) = Inr ?o"
    by (simp add: update_result [OF assms(2)] assms(3))
  have d: "db ?w' = db ?w1"
    by (simp add: update_world [OF assms(2,3)] Let_def)
  have "db ?w1 = (db w)\<lparr>rows := (rows (db w))(offer_id db_offer \<mapsto> ?o)\<rparr>"
    by (rule db_commit_status) simp
  with d i have r: "rows (db ?w') oid = Some ?o" by simp
  have s: "status ?o = new_status" by (simp add: commit_fields)
  have p: "proposer_id ?o = proposer_id db_offer" "receiver_id ?o = receiver_id db_offer"
    "offer_id ?o = oid"
    using i by (simp_all add: commit_fields)
  from log_send_trade_notification [OF transition_not_pending [OF assms(3)], of ?o user ?w1]
  obtain ty where n: "log (send_trade_notification ?o new_status user ?w1) =
     log w @ [Commit ?o, NotificationDispatch
               \<lparr>user_id = (if user = receiver_id db_offer then proposer_id db_offer else receiver_id db_offer),
                related_offer_id = oid, related_user_id = user, notification_type = ty\<rparr>]"
    by (auto simp: p log_commit_status)
  have l: "log ?w' =
             log w @ [Commit ?o,
                      NotificationDispatch
                        \<lparr>user_id = (if user = receiver_id db_offer then proposer_id db_offer
                                    else receiver_id db_offer),
                         related_offer_id = oid, related_user_id = user, notification_type = ty\<rparr>]
                   @ (if new_status = accepted
                      then [ChatRoomProvision \<lparr>trade_offer_id = oid, user1_id = proposer_id db_offer,
                                               user2_id = receiver_id db_offer\<rparr>]
                      else [])"
  proof (cases "new_status = accepted")
    case True
    have e0: "?w' = create_chat_room ?o (send_trade_notification ?o new_status user ?w1)"
      unfolding update_world [OF assms(2,3)] Let_def using True by simp
    have "log ?w' = log (send_trade_notification ?o new_status user ?w1)
            @ [ChatRoomProvision \<lparr>trade_offer_id = oid, user1_id = proposer_id db_offer,
                                     user2_id = receiver_id db_offer\<rparr>]"
      unfolding e0 log_create_chat_room p by (rule refl)
    then show ?thesis unfolding n using True by simp
  next
    case False
    have e: "?w' = send_trade_notification ?o new_status user ?w1"
      unfolding update_world [OF assms(2,3)] Let_def using False by simp
    show ?thesis unfolding e n using False by simp
  qed
  from f d r s l show ?thesis by blast
qed


lemma service_down_post:
  "http_post_with_retry payload now \<lparr>breaker = new_circuit_breaker, behaviour = service_down, calls = 0\<rparr> =
     (Inl RequestError, \<lparr>breaker = new_circuit_breaker, behaviour = service_down, calls = 3\<rparr>, 3, [1, 2])"
  by (simp add: http_post_with_retry_def with_retry_def retry_loop.simps http_post_attempt_def
      CircuitBreaker_call_def make_request_def invoke_def new_circuit_breaker_def service_down_def
      retry_if_http_error_def stop_after_attempt_def wait_exponential_def)


lemma update_world1_down:
  "snd (update_trade_offer_status 1 accepted ''bob'' world1) =
     world1\<lparr>db := \<lparr>rows = [1 \<mapsto> offer1\<lparr>status := accepted, responded_at := Some 100, updated_at := 100\<rparr>],
                    next_id = 2\<rparr>,
            log := [Commit offer1,
                    Commit (offer1\<lparr>status := accepted, responded_at := Some 100, updated_at := 100\<rparr>),
                    NotificationDispatch \<lparr>user_id = ''alice'', related_offer_id = 1,
                       related_user_id = ''bob'', notification_type = ''trade_offer_accepted''\<rparr>,
                    ChatRoomProvision \<lparr>trade_offer_id = 1, user1_id = ''alice'', user2_id = ''bob''\<rparr>],
            notification_service := \<lparr>breaker = new_circuit_breaker, behaviour = service_down, calls = 3\<rparr>,
            chat_service := \<lparr>breaker = new_circuit_breaker, behaviour = service_down, calls = 3\<rparr>,
            clock := 106\<rparr>"
  by (simp add: update_trade_offer_status_def world1_eq world0_def transition_error_def
      commit_status_def send_trade_notification_def create_chat_room_def
      send_notification_resilient_def create_chat_room_resilient_def service_down_post offer1_def Let_def)

theorem commit_before_side_effects_witness:
  "reachable world1 \<and> rows (db world1) 1 = Some offer1
   \<and> transition_error offer1 accepted ''bob'' = None
   \<and> behaviour (notification_service world1) = service_down
   \<and> behaviour (chat_service world1) = service_down
   \<and> calls (notification_service (snd (update_trade_offer_status 1 accepted ''bob'' world1))) = 3
   \<and> calls (chat_service (snd (update_trade_offer_status 1 accepted ''bob'' world1))) = 3
   \<and> fst (update_trade_offer_status 1 accepted ''bob'' world1)
       = Inr (offer1\<lparr>status := accepted, responded_at := Some 100, updated_at := 100\<rparr>)
   \<and> rows (db (snd (update_trade_offer_status 1 accepted ''bob'' world1))) 1
       = Some (offer1\<lparr>status := accepted, responded_at := Some 100, updated_at := 100\<rparr>)
   \<and> log (snd (update_trade_offer_status 1 accepted ''bob'' world1)) =
       [Commit offer1,
        Commit (offer1\<lparr>status := accepted, responded_at := Some 100, updated_at := 100\<rparr>),
        NotificationDispatch \<lparr>user_id = ''alice'', related_offer_id = 1,
           related_user_id = ''bob'', notification_type = ''trade_offer_accepted''\<rparr>,
        ChatRoomProvision \<lparr>trade_offer_id = 1, user1_id = ''alice'', user2_id = ''bob''\<rparr>]"
proof -
  have t: "transition_error offer1 accepted ''bob'' = None"
    by (simp add: transition_error_def offer1_def)
  have c: "fst (commit_status offer1 accepted world1)
             = offer1\<lparr>status := accepted, responded_at := Some 100, updated_at := 100\<rparr>"
    by (simp add: commit_fields clock_world1)
  have b: "behaviour (notification_service world1) = service_down"
    "behaviour (chat_service world1) = service_down"
    by (simp_all add: world1_eq world0_def)
  from commit_before_side_effects [OF reachable_world1 rows_world1 t, unfolded c]
  have f: "fst (update_trade_offer_status 1 accepted ''bob'' world1)
       = Inr (offer1\<lparr>status := accepted, responded_at := Some 100, updated_at := 100\<rparr>)"
    and r: "rows (db (snd (update_trade_offer_status 1 accepted ''bob'' world1))) 1
       = Some (offer1\<lparr>status := accepted, responded_at := Some 100, updated_at := 100\<rparr>)"
    by blast+
  have n: "calls (notification_service (snd (update_trade_offer_status 1 accepted ''bob'' world1))) = 3"
    "calls (chat_service (snd (update_trade_offer_status 1 accepted ''bob'' world1))) = 3"
    by (simp_all add: update_world1_down)
  have l: "log (snd (update_trade_offer_status 1 accepted ''bob'' world1)) =
       [Commit offer1,
        Commit (offer1\<lparr>status := accepted, responded_at := Some 100, updated_at := 100\<rparr>),
        NotificationDispatch \<lparr>user_id = ''alice'', related_offer_id = 1,
           related_user_id = ''bob'', notification_type = ''trade_offer_accepted''\<rparr>,
        ChatRoomProvision \<lparr>trade_offer_id = 1, user1_id = ''alice'', user2_id = ''bob''\<rparr>]"
    by (simp add: update_world1_down)
  from reachable_world1 rows_world1 t b n f r l show ?thesis by (intro conjI)
qed

lemma create_inserts:
  fixes offer_data w
  defines "w1 \<equiv> (case validate_items (new_offered_item_ids offer_data @ new_requested_item_ids offer_data)
                         (clock w) (catalog_service w) of
                    (result, d', n, waits) \<Rightarrow> w\<lparr>catalog_service := d', clock := clock w + sum_list waits\<rparr>)"
  shows "fst (create_trade_offer offer_data w) = Inr x \<longrightarrow>
           create_trade_offer offer_data w = insert_offer offer_data w1"
  unfolding w1_def
  by (simp add: create_trade_offer_def Let_def split: prod.splits sum.splits exn.splits option.splits)

lemma insert_offer_result:
  "fst (insert_offer offer_data w1) = Inr x \<Longrightarrow> responded_at x = None \<and> status x = pending"
  by (auto simp: insert_offer_def Let_def split: if_splits)

lemma create_result:
  assumes "fst (create_trade_offer offer_data w) = Inr x"
  shows "responded_at x = None \<and> status x = pending"
proof -
  from create_inserts [of offer_data w x] assms
  obtain w1 where "create_trade_offer offer_data w = insert_offer offer_data w1" by blast
  with assms have "fst (insert_offer offer_data w1) = Inr x" by simp
  then show ?thesis by (rule insert_offer_result)
qed

lemma insert_offer_rows:
  "i < next_id (db w1) \<Longrightarrow> rows (db (snd (insert_offer offer_data w1))) i = rows (db w1) i"
  by (simp add: insert_offer_def Let_def)

lemma create_rows:
  assumes "reachable w" and "rows (db w) i = Some db_offer"
  shows "rows (db (snd (create_trade_offer offer_data w))) i = Some db_offer"
proof -
  define w1 where "w1 = (case validate_items (new_offered_item_ids offer_data @ new_requested_item_ids offer_data)
                         (clock w) (catalog_service w) of
                    (result, d', n, waits) \<Rightarrow> w\<lparr>catalog_service := d', clock := clock w + sum_list waits\<rparr>)"
  from create_cases [of w offer_data, folded w1_def]
  have d: "db w1 = db w"
    and c: "snd (create_trade_offer offer_data w) = w \<or>
      snd (create_trade_offer offer_data w) = w1 \<or>
       (new_proposer_id offer_data \<noteq> new_receiver_id offer_data \<and>
        create_trade_offer offer_data w = insert_offer offer_data w1)" by simp_all
  from reachable_store_ok [OF assms(1)] assms(2) have "i < next_id (db w)"
    by (simp add: store_ok_def offer_ok_def)
  with d have "i < next_id (db w1)" by simp
  from insert_offer_rows [OF this, of offer_data] d assms(2)
  have "rows (db (snd (insert_offer offer_data w1))) i = Some db_offer" by simp
  with c d assms(2) show ?thesis by auto
qed

lemma delete_rows:
  "rows (db (snd (delete_trade_offer oid user w))) i = Some db_offer' \<Longrightarrow> rows (db w) i = Some db_offer'"
  by (auto simp: delete_trade_offer_def split: option.splits if_splits)

lemma transition_from_pending:
  "transition_error db_offer new_status user = None \<Longrightarrow> new_status = accepted \<or> new_status = rejected
     \<Longrightarrow> status db_offer = pending"
  by (auto simp: transition_error_def Let_def split: if_splits)

lemma update_responded_at:
  assumes "reachable w" and "rows (db w) i = Some db_offer"
  shows "\<exists>db_offer'. rows (db (snd (update_trade_offer_status oid new_status user w))) i = Some db_offer'
           \<and> responded_at db_offer' =
               (if oid = i \<and> (\<exists>x. fst (update_trade_offer_status oid new_status user w) = Inr x)
                   \<and> (new_status = accepted \<or> new_status = rejected)
                then Some (clock w) else responded_at db_offer)"
    and "oid = i \<and> (\<exists>x. fst (update_trade_offer_status oid new_status user w) = Inr x)
           \<and> (new_status = accepted \<or> new_status = rejected)
         \<longrightarrow> status db_offer = pending \<and> responded_at db_offer = None"
proof -
  note r = update_rows [OF assms(1), of oid new_status user]
  show "\<exists>db_offer'. rows (db (snd (update_trade_offer_status oid new_status user w))) i = Some db_offer'
           \<and> responded_at db_offer' =
               (if oid = i \<and> (\<exists>x. fst (update_trade_offer_status oid new_status user w) = Inr x)
                   \<and> (new_status = accepted \<or> new_status = rejected)
                then Some (clock w) else responded_at db_offer)"
  proof (cases "fst (update_trade_offer_status oid new_status user w)")
    case (Inl e)
    with r assms(2) show ?thesis by simp
  next
    case (Inr x)
    show ?thesis
    proof (cases "oid = i")
      case False
      with r Inr assms(2) show ?thesis by simp
    next
      case True
      with Inr update_result [OF assms(2), of new_status user]
      have "x = fst (commit_status db_offer new_status w)" by (simp split: option.splits)
      then have "responded_at x = (if new_status \<in> {accepted, rejected} then Some (clock w)
                                   else responded_at db_offer)"
        by (simp add: commit_fields)
      with r Inr True show ?thesis by simp
    qed
  qed
  show "oid = i \<and> (\<exists>x. fst (update_trade_offer_status oid new_status user w) = Inr x)
           \<and> (new_status = accepted \<or> new_status = rejected)
         \<longrightarrow> status db_offer = pending \<and> responded_at db_offer = None"
  proof (intro impI, elim conjE exE)
    fix x assume o: "oid = i" and x: "fst (update_trade_offer_status oid new_status user w) = Inr x"
      and n: "new_status = accepted \<or> new_status = rejected"
    from o x update_result [OF assms(2), of new_status user]
    have "transition_error db_offer new_status user = None" by (simp split: option.splits)
    from transition_from_pending [OF this n] reachable_row(3) [OF assms]
    show "status db_offer = pending \<and> responded_at db_offer = None" by simp
  qed
qed


lemma reachable_world2: "reachable world2"
  unfolding world2_def by (rule reachable.updated [OF reachable_world1])

lemma rows_world2:
  "rows (db world2) 1 = Some (offer1\<lparr>status := accepted, responded_at := Some 100, updated_at := 100\<rparr>)"
  by (simp add: world2_def update_world1_down)

lemma clock_world2: "clock world2 = 106"
  by (simp add: world2_def update_world1_down)

subsection \<open>The response timestamp\<close>

text \<open>
  Claim C2. For every stored offer, \<open>responded_at\<close> is null exactly while the offer is
  pending or cancelled. After any status-update request the offer is still stored, and
  its \<open>responded_at\<close> is the old one unless the request was a successful accept or reject
  of this very offer, which happens only from pending, where \<open>responded_at\<close> was null
  and now becomes the time of the commit. So a timestamp once set is kept by every later
  update, accepted to completed included, and pending or cancelled offers keep null.
  Creating another offer leaves the row alone, a new offer starts with null, and a
  delete can only remove a row, not alter it.
\<close>

theorem responded_at_set_once:
  assumes "reachable w" and "rows (db w) i = Some db_offer"
  shows "((responded_at db_offer = None) = (status db_offer = pending \<or> status db_offer = cancelled))
       \<and> (\<exists>db_offer'. rows (db (snd (update_trade_offer_status oid new_status user w))) i = Some db_offer'
             \<and> responded_at db_offer' =
                 (if oid = i \<and> (\<exists>x. fst (update_trade_offer_status oid new_status user w) = Inr x)
                     \<and> (new_status = accepted \<or> new_status = rejected)
                  then Some (clock w) else responded_at db_offer))
       \<and> (oid = i \<and> (\<exists>x. fst (update_trade_offer_status oid new_status user w) = Inr x)
             \<and> (new_status = accepted \<or> new_status = rejected)
           \<longrightarrow> status db_offer = pending \<and> responded_at db_offer = None)
       \<and> rows (db (snd (create_trade_offer offer_data w))) i = Some db_offer
       \<and> (\<forall>x. fst (create_trade_offer offer_data w) = Inr x \<longrightarrow> responded_at x = None \<and> status x = pending)
       \<and> (\<forall>db_offer'. rows (db (snd (delete_trade_offer oid user w))) i = Some db_offer'
             \<longrightarrow> db_offer' = db_offer)"
proof -
  have d: "\<forall>db_offer'. rows (db (snd (delete_trade_offer oid user w))) i = Some db_offer'
             \<longrightarrow> db_offer' = db_offer"
    using delete_rows [of oid user w i] assms(2) by auto
  have c: "\<forall>x. fst (create_trade_offer offer_data w) = Inr x \<longrightarrow> responded_at x = None \<and> status x = pending"
    using create_result by blast
  from reachable_row(3) [OF assms] update_responded_at [OF assms, of oid new_status user]
    create_rows [OF assms, of offer_data] c d
  show ?thesis by (intro conjI)
qed

theorem responded_at_set_once_witness:
  "reachable world2
   \<and> rows (db world2) 1 = Some (offer1\<lparr>status := accepted, responded_at := Some 100, updated_at := 100\<rparr>)
   \<and> clock world2 = 106
   \<and> (\<exists>db_offer'. rows (db (snd (update_trade_offer_status 1 completed ''alice'' world2))) 1 = Some db_offer'
         \<and> responded_at db_offer' = Some 100)
   \<and> rows (db world1) 1 = Some offer1 \<and> responded_at offer1 = None
   \<and> (\<exists>db_offer'. rows (db (snd (update_trade_offer_status 1 accepted ''bob'' world1))) 1 = Some db_offer'
         \<and> responded_at db_offer' = Some 100)
   \<and> (\<exists>db_offer'. rows (db (snd (update_trade_offer_status 1 cancelled ''alice'' world1))) 1 = Some db_offer'
         \<and> responded_at db_offer' = None)"
proof -
  have a: "\<exists>db_offer'. rows (db (snd (update_trade_offer_status 1 completed ''alice'' world2))) 1 = Some db_offer'
         \<and> responded_at db_offer' = Some 100"
    using responded_at_set_once [OF reachable_world2 rows_world2, of 1 completed "''alice''"]
    by simp
  have x: "\<exists>x. fst (update_trade_offer_status 1 accepted ''bob'' world1) = Inr x"
    by (metis update_world1_accept fst_conv)
  have b: "\<exists>db_offer'. rows (db (snd (update_trade_offer_status 1 accepted ''bob'' world1))) 1 = Some db_offer'
         \<and> responded_at db_offer' = Some 100"
    using responded_at_set_once [OF reachable_world1 rows_world1, of 1 accepted "''bob''"] x clock_world1
    by simp
  have c: "\<exists>db_offer'. rows (db (snd (update_trade_offer_status 1 cancelled ''alice'' world1))) 1 = Some db_offer'
         \<and> responded_at db_offer' = None"
    using responded_at_set_once [OF reachable_world1 rows_world1, of 1 cancelled "''alice''"]
    by (simp add: offer1_def)
  have n: "responded_at offer1 = None" by (simp add: offer1_def)
  from reachable_world2 rows_world2 clock_world2 a rows_world1 n b c show ?thesis by (intro conjI)
qed








subsection \<open>The verdicts of the catalog\<close>





lemma catalog_breaker_built: "catalog_circuit_breaker = Some new_circuit_breaker"
  by (simp add: catalog_circuit_breaker_def CircuitBreaker_init_def new_circuit_breaker_def)

lemma http_post_attempt_closed:
  assumes "state (breaker d) = STATE_CLOSED"
  shows "http_post_attempt payload now d =
           (behaviour d (calls d) payload, d\<lparr>breaker := (breaker d)\<lparr>fail_counter := 0\<rparr>, calls := calls d + 1\<rparr>)"
  using assms
  by (simp add: http_post_attempt_def CircuitBreaker_call_def make_request_def invoke_def Let_def)

lemma posts_closed:
  "state (breaker d) = STATE_CLOSED \<Longrightarrow>
     state (breaker (((\<lambda>d. snd (http_post_attempt payload now d)) ^^ k) d)) = STATE_CLOSED
     \<and> calls (((\<lambda>d. snd (http_post_attempt payload now d)) ^^ k) d) = calls d + k
     \<and> behaviour (((\<lambda>d. snd (http_post_attempt payload now d)) ^^ k) d) = behaviour d"
  by (induction k) (simp_all add: http_post_attempt_closed)

text \<open>The breaker of the catalog does count: the fifth failure in a row opens it.\<close>

lemma catalog_breaker_opens:
  assumes "state (breaker d) = STATE_CLOSED" and "fail_counter (breaker d) = 4"
    and "fail_max (breaker d) = 5" and "behaviour d (calls d) item_ids = Inl e"
  shows "state (breaker (snd (validate_items_attempt item_ids now d))) = STATE_OPEN"
  using assms
  by (simp add: validate_items_attempt_def CircuitBreaker_call_def invoke_def Let_def)

subsection \<open>The breakers of the two HTTP services\<close>

text \<open>
  Claim C7. What the code does where the claim fails. Neither HTTP breaker is built:
  both constructor calls pass a keyword the constructor does not have. And a breaker
  given to \<open>http_post_with_retry\<close> guards nothing: its \<open>call\<close> runs only \<open>_make_request\<close>,
  which creates the request's coroutine and cannot fail, and the request is sent after
  the call has returned. So with a closed breaker every attempt reaches the service,
  returns what the service returns, failures included, and leaves the breaker closed
  with no failure counted, after any number of attempts in a row.
\<close>

theorem http_breakers_do_not_guard:
  "notification_circuit_breaker = None \<and> chat_circuit_breaker = None
   \<and> (state (breaker d) = STATE_CLOSED \<longrightarrow>
        fst (http_post_attempt payload now d) = behaviour d (calls d) payload
        \<and> calls (snd (http_post_attempt payload now d)) = calls d + 1
        \<and> state (breaker (snd (http_post_attempt payload now d))) = STATE_CLOSED
        \<and> fail_counter (breaker (snd (http_post_attempt payload now d))) = 0
        \<and> state (breaker (((\<lambda>d. snd (http_post_attempt payload now d)) ^^ k) d)) = STATE_CLOSED
        \<and> calls (((\<lambda>d. snd (http_post_attempt payload now d)) ^^ k) d) = calls d + k)"
proof -
  have n: "notification_circuit_breaker = None" "chat_circuit_breaker = None"
    by (simp_all add: notification_circuit_breaker_def chat_circuit_breaker_def CircuitBreaker_init_def)
  have "fst (http_post_attempt payload now d) = behaviour d (calls d) payload
        \<and> calls (snd (http_post_attempt payload now d)) = calls d + 1
        \<and> state (breaker (snd (http_post_attempt payload now d))) = STATE_CLOSED
        \<and> fail_counter (breaker (snd (http_post_attempt payload now d))) = 0
        \<and> state (breaker (((\<lambda>d. snd (http_post_attempt payload now d)) ^^ k) d)) = STATE_CLOSED
        \<and> calls (((\<lambda>d. snd (http_post_attempt payload now d)) ^^ k) d) = calls d + k"
    if c: "state (breaker d) = STATE_CLOSED"
    using posts_closed [OF c, where payload = payload and now = now and k = k] c by (simp add: http_post_attempt_closed)
  with n show ?thesis by blast
qed

theorem http_breakers_do_not_guard_witness:
  "state (breaker (notification_service world0)) = STATE_CLOSED
   \<and> fail_max (breaker (notification_service world0)) = 5
   \<and> fst (http_post_attempt
            \<lparr>user_id = ''alice'', related_offer_id = 1, related_user_id = ''bob'',
             notification_type = ''trade_offer_accepted''\<rparr> 100 (notification_service world0))
       = Inl RequestError
   \<and> state (breaker (((\<lambda>d. snd (http_post_attempt
            \<lparr>user_id = ''alice'', related_offer_id = 1, related_user_id = ''bob'',
             notification_type = ''trade_offer_accepted''\<rparr> 100 d)) ^^ 5) (notification_service world0)))
       = STATE_CLOSED
   \<and> calls (((\<lambda>d. snd (http_post_attempt
            \<lparr>user_id = ''alice'', related_offer_id = 1, related_user_id = ''bob'',
             notification_type = ''trade_offer_accepted''\<rparr> 100 d)) ^^ 6) (notification_service world0))
       = 6"
proof -
  have c: "state (breaker (notification_service world0)) = STATE_CLOSED"
    and m: "fail_max (breaker (notification_service world0)) = 5"
    and b: "behaviour (notification_service world0) (calls (notification_service world0))
              \<lparr>user_id = ''alice'', related_offer_id = 1, related_user_id = ''bob'',
               notification_type = ''trade_offer_accepted''\<rparr> = Inl RequestError"
    and z: "calls (notification_service world0) = 0"
    by (simp_all add: world0_def new_circuit_breaker_def service_down_def)
  note t = http_breakers_do_not_guard [where d = "notification_service world0"
      and payload = "\<lparr>user_id = ''alice'', related_offer_id = 1, related_user_id = ''bob'',
        notification_type = ''trade_offer_accepted''\<rparr>" and now = 100]
  from t [where k = 5] c b have 1: "fst (http_post_attempt
            \<lparr>user_id = ''alice'', related_offer_id = 1, related_user_id = ''bob'',
             notification_type = ''trade_offer_accepted''\<rparr> 100 (notification_service world0))
       = Inl RequestError" by simp
  from t [where k = 5] c have 2: "state (breaker (((\<lambda>d. snd (http_post_attempt
            \<lparr>user_id = ''alice'', related_offer_id = 1, related_user_id = ''bob'',
             notification_type = ''trade_offer_accepted''\<rparr> 100 d)) ^^ 5) (notification_service world0)))
       = STATE_CLOSED" by blast
  from t [where k = 6] c z have 3: "calls (((\<lambda>d. snd (http_post_attempt
            \<lparr>user_id = ''alice'', related_offer_id = 1, related_user_id = ''bob'',
             notification_type = ''trade_offer_accepted''\<rparr> 100 d)) ^^ 6) (notification_service world0))
       = 6" by simp
  from c m 1 2 3 show ?thesis by (intro conjI)
qed



lemma wait_exponential_bounds: "1 \<le> wait_exponential k \<and> wait_exponential k \<le> 10"
  by (simp add: wait_exponential_def)

lemma wait_exponential_values:
  "wait_exponential 1 = 1 \<and> wait_exponential 2 = 2 \<and> wait_exponential 3 = 4
   \<and> wait_exponential 4 = 8 \<and> wait_exponential 5 = 10"
  by (simp add: wait_exponential_def)












subsection \<open>The retry policy\<close>




end
